theory Spec2Isabelle
  imports Main "HOL-Library.Char_ord" "HOL-Library.List_Lexorder"
begin

section \<open>Values, errors and dictionaries\<close>

text \<open>
  The Python values that flow through \<^verbatim>\<open>mongoengine/queryset/transform.py\<close> and
  \<^verbatim>\<open>mongoengine/document.py\<close>.  A mapping (\<^verbatim>\<open>dict\<close> or its subclass \<^verbatim>\<open>SON\<close>) is an
  association list with unique string keys in insertion order; lists and tuples are kept
  apart because the source tests \<^verbatim>\<open>isinstance(value, list)\<close>.  Numbers are integers.
  Values are compared by content: two keyword arguments are taken to carry distinct
  objects, so an in-place \<^verbatim>\<open>update\<close> of one entry is not seen through another.
\<close>

datatype pyval =
    PNone
  | PInt int
  | PStr string
  | PList "pyval list"
  | PTuple "pyval list"
  | PDict "(string \<times> pyval) list"

datatype error =
    InvalidQueryError
  | OperationError
  | NotImplementedError
  | IndexError
  | KeyError
  | TypeError
  | NameError
  | AttributeError

type_synonym pydict = "(string \<times> pyval) list"

fun is_dict :: "pyval \<Rightarrow> bool" where
  "is_dict (PDict d) = True"
| "is_dict v = False"

text \<open>\<^verbatim>\<open>d[k] = v\<close>: an existing key keeps its position, a new key goes last.\<close>

fun dict_setitem :: "('k \<times> 'v) list \<Rightarrow> 'k \<Rightarrow> 'v \<Rightarrow> ('k \<times> 'v) list" where
  "dict_setitem [] k v = [(k, v)]"
| "dict_setitem ((k', v') # d) k v =
     (if k' = k then (k, v) # d else (k', v') # dict_setitem d k v)"

text \<open>\<^verbatim>\<open>d.update(e)\<close> for a mapping \<^verbatim>\<open>e\<close>: one assignment per entry of \<^verbatim>\<open>e\<close>, in order.\<close>

fun dict_update :: "('k \<times> 'v) list \<Rightarrow> ('k \<times> 'v) list \<Rightarrow> ('k \<times> 'v) list" where
  "dict_update d [] = d"
| "dict_update d ((k, v) # e) = dict_update (dict_setitem d k v) e"

definition dict_delitem :: "('k \<times> 'v) list \<Rightarrow> 'k \<Rightarrow> ('k \<times> 'v) list" where
  "dict_delitem d k = filter (\<lambda>p. fst p \<noteq> k) d"

definition dict_keys :: "('k \<times> 'v) list \<Rightarrow> 'k list" where
  "dict_keys d = map fst d"

section \<open>Keys: splitting, numeric segments, joining\<close>

text \<open>
  \<^verbatim>\<open>key.split('__')\<close>: the separator is matched left to right without overlap; the first
  argument holds the characters of the current segment, last first.
\<close>

fun split_sep :: "string \<Rightarrow> string \<Rightarrow> string list" where
  "split_sep cur (a # b # rest) =
     (if a = CHR ''_'' \<and> b = CHR ''_'' then rev cur # split_sep [] rest
      else split_sep (a # cur) (b # rest))"
| "split_sep cur [a] = [rev (a # cur)]"
| "split_sep cur [] = [rev cur]"

definition split_dunder :: "string \<Rightarrow> string list" where
  "split_dunder key = split_sep [] key"

text \<open>\<^verbatim>\<open>'.'.join(parts)\<close>\<close>

fun join_dot :: "string list \<Rightarrow> string" where
  "join_dot [] = []"
| "join_dot [p] = p"
| "join_dot (p # q # ps) = p @ ''.'' @ join_dot (q # ps)"

text \<open>\<^verbatim>\<open>p.isdigit()\<close>: non-empty and all characters decimal digits.\<close>

definition isdigit :: "string \<Rightarrow> bool" where
  "isdigit p = (p \<noteq> [] \<and> list_all (\<lambda>c. c \<in> set ''0123456789'') p)"

text \<open>\<^verbatim>\<open>[(i, p) for i, p in enumerate(parts) if p.isdigit()]\<close>\<close>

definition digit_indices :: "string list \<Rightarrow> (nat \<times> string) list" where
  "digit_indices parts = filter (\<lambda>ip. isdigit (snd ip)) (enumerate 0 parts)"

text \<open>\<^verbatim>\<open>[part for part in parts if not part.isdigit()]\<close>\<close>

definition strip_digits :: "string list \<Rightarrow> string list" where
  "strip_digits parts = filter (\<lambda>p. \<not> isdigit p) parts"

text \<open>\<^verbatim>\<open>xs.insert(i, x)\<close> for \<^verbatim>\<open>i >= 0\<close>: an index past the end appends.\<close>

definition list_insert :: "'a list \<Rightarrow> nat \<Rightarrow> 'a \<Rightarrow> 'a list" where
  "list_insert xs i x = take i xs @ x # drop i xs"

text \<open>\<^verbatim>\<open>for i, part in indices: parts.insert(i, part)\<close>\<close>

fun reinsert :: "(nat \<times> string) list \<Rightarrow> string list \<Rightarrow> string list" where
  "reinsert [] parts = parts"
| "reinsert ((i, p) # ips) parts = reinsert ips (list_insert parts i p)"


section \<open>Operator vocabularies\<close>

definition COMPARISON_OPERATORS :: "string list" where
  "COMPARISON_OPERATORS =
     [''ne'', ''gt'', ''gte'', ''lt'', ''lte'', ''in'', ''nin'', ''mod'',
      ''all'', ''size'', ''exists'', ''not'']"

definition GEO_OPERATORS :: "string list" where
  "GEO_OPERATORS =
     [''within_distance'', ''within_spherical_distance'', ''within_box'',
      ''within_polygon'', ''near'', ''near_sphere'', ''max_distance'', ''geo_within'',
      ''geo_within_box'', ''geo_within_polygon'', ''geo_within_center'',
      ''geo_within_sphere'', ''geo_intersects'']"

definition STRING_OPERATORS :: "string list" where
  "STRING_OPERATORS =
     [''contains'', ''icontains'', ''startswith'', ''istartswith'', ''endswith'',
      ''iendswith'', ''exact'', ''iexact'']"

definition CUSTOM_OPERATORS :: "string list" where
  "CUSTOM_OPERATORS = [''match'']"

definition MATCH_OPERATORS :: "string list" where
  "MATCH_OPERATORS =
     COMPARISON_OPERATORS @ GEO_OPERATORS @ STRING_OPERATORS @ CUSTOM_OPERATORS"

definition UPDATE_OPERATORS :: "string list" where
  "UPDATE_OPERATORS =
     [''set'', ''unset'', ''inc'', ''dec'', ''pop'', ''push'', ''pull'', ''pull_all'',
      ''add_to_set'', ''set_on_insert'']"

section \<open>The schema collaborator\<close>

text \<open>
  \<^verbatim>\<open>_doc_cls._lookup_field\<close> and the field objects it returns are not part of these
  sources; they are parameters.  A field exposes what the compilers read of it:
  \<^verbatim>\<open>db_field\<close>, \<^verbatim>\<open>required\<close>, whether \<^verbatim>\<open>_geo_index == pymongo.GEO2D\<close>, and
  \<^verbatim>\<open>prepare_query_value(op, value)\<close>.  A lookup returns strings and fields, or raises
  (\<open>None\<close>).
\<close>

record field_meta =
  db_field :: string
  required :: bool
  geo_2d :: bool
  prepare_query_value :: "string option \<Rightarrow> pyval \<Rightarrow> pyval"

datatype lookup_item = Name string | Field field_meta

type_synonym doc_cls = "string list \<Rightarrow> lookup_item list option"

fun cleaned_fields :: "lookup_item list \<Rightarrow> field_meta list" where
  "cleaned_fields [] = []"
| "cleaned_fields (Name s # fs) = cleaned_fields fs"
| "cleaned_fields (Field m # fs) = m # cleaned_fields fs"

text \<open>
  The parts after the lookup: a string as it is, a field by its \<^verbatim>\<open>db_field\<close> (lines 59--68
  of \<^verbatim>\<open>query\<close>).
\<close>

fun field_names :: "lookup_item list \<Rightarrow> string list" where
  "field_names [] = []"
| "field_names (Name s # fs) = s # field_names fs"
| "field_names (Field m # fs) = db_field m # field_names fs"

text \<open>The same in \<^verbatim>\<open>update\<close> (lines 180--192), where the string \<^verbatim>\<open>S\<close> becomes \<^verbatim>\<open>$\<close>.\<close>

fun update_field_names :: "lookup_item list \<Rightarrow> string list" where
  "update_field_names [] = []"
| "update_field_names (Name s # fs) = (if s = ''S'' then ''$'' else s) # update_field_names fs"
| "update_field_names (Field m # fs) = db_field m # update_field_names fs"

text \<open>Iterating a value in a comprehension \<^verbatim>\<open>[... for v in value]\<close>.\<close>

fun py_iter :: "pyval \<Rightarrow> error + pyval list" where
  "py_iter (PList xs) = Inr xs"
| "py_iter (PTuple xs) = Inr xs"
| "py_iter (PStr s) = Inr (map (\<lambda>c. PStr [c]) s)"
| "py_iter (PDict d) = Inr (map (\<lambda>p. PStr (fst p)) d)"
| "py_iter v = Inl TypeError"

section \<open>Geometry inference\<close>

text \<open>
  \<^verbatim>\<open>value[0]\<close>: the first element of a non-empty list or tuple, the first character of a
  non-empty string; every other value raises (no mapping of these values has the key
  \<^verbatim>\<open>0\<close>).
\<close>

fun index0 :: "pyval \<Rightarrow> error + pyval" where
  "index0 (PList (x # xs)) = Inr x"
| "index0 (PTuple (x # xs)) = Inr x"
| "index0 (PStr (c # cs)) = Inr (PStr [c])"
| "index0 (PList []) = Inl IndexError"
| "index0 (PTuple []) = Inl IndexError"
| "index0 (PStr []) = Inl IndexError"
| "index0 (PDict d) = Inl KeyError"
| "index0 v = Inl TypeError"

text \<open>Whether \<^verbatim>\<open>value[0]...[0]\<close> with \<open>n\<close> subscripts evaluates without raising.\<close>

fun indexable :: "nat \<Rightarrow> pyval \<Rightarrow> bool" where
  "indexable 0 v = True"
| "indexable (Suc n) v = (case index0 v of Inl e \<Rightarrow> False | Inr x \<Rightarrow> indexable n x)"

definition geometry :: "string \<Rightarrow> pyval \<Rightarrow> pyval" where
  "geometry ty v = PDict [(''$geometry'', PDict [(''type'', PStr ty), (''coordinates'', v)])]"

fun infer_geometry :: "pyval \<Rightarrow> error + pyval" where
  "infer_geometry (PDict d) =
     (if ''$geometry'' \<in> set (dict_keys d) then Inr (PDict d)
      else if ''coordinates'' \<in> set (dict_keys d) \<and> ''type'' \<in> set (dict_keys d)
        then Inr (PDict [(''$geometry'', PDict d)])
      else Inl InvalidQueryError)"
| "infer_geometry (PList xs) =
     (if indexable 3 (PList xs) then Inr (geometry ''Polygon'' (PList xs))
      else if indexable 2 (PList xs) then Inr (geometry ''LineString'' (PList xs))
      else if indexable 1 (PList xs) then Inr (geometry ''Point'' (PList xs))
      else Inl InvalidQueryError)"
| "infer_geometry v = Inl InvalidQueryError"

fun geo_operator :: "field_meta \<Rightarrow> string \<Rightarrow> pyval \<Rightarrow> error + pyval" where
  "geo_operator field op v =
     (if geo_2d field then
        (if op = ''within_distance'' then Inr (PDict [(''$within'', PDict [(''$center'', v)])])
         else if op = ''within_spherical_distance''
           then Inr (PDict [(''$within'', PDict [(''$centerSphere'', v)])])
         else if op = ''within_polygon'' then Inr (PDict [(''$within'', PDict [(''$polygon'', v)])])
         else if op = ''near'' then Inr (PDict [(''$near'', v)])
         else if op = ''near_sphere'' then Inr (PDict [(''$nearSphere'', v)])
         else if op = ''within_box'' then Inr (PDict [(''$within'', PDict [(''$box'', v)])])
         else if op = ''max_distance'' then Inr (PDict [(''$maxDistance'', v)])
         else Inl NotImplementedError)
      else
        (if op = ''geo_within''
           then (case infer_geometry v of Inl e \<Rightarrow> Inl e
                 | Inr g \<Rightarrow> Inr (PDict [(''$geoWithin'', g)]))
         else if op = ''geo_within_box'' then Inr (PDict [(''$geoWithin'', PDict [(''$box'', v)])])
         else if op = ''geo_within_polygon''
           then Inr (PDict [(''$geoWithin'', PDict [(''$polygon'', v)])])
         else if op = ''geo_within_center''
           then Inr (PDict [(''$geoWithin'', PDict [(''$center'', v)])])
         else if op = ''geo_within_sphere''
           then Inr (PDict [(''$geoWithin'', PDict [(''$centerSphere'', v)])])
         else if op = ''geo_intersects''
           then (case infer_geometry v of Inl e \<Rightarrow> Inl e
                 | Inr g \<Rightarrow> Inr (PDict [(''$geoIntersects'', g)]))
         else if op = ''near''
           then (case infer_geometry v of Inl e \<Rightarrow> Inl e
                 | Inr g \<Rightarrow> Inr (PDict [(''$near'', g)]))
         else if op = ''max_distance'' then Inr (PDict [(''$maxDistance'', v)])
         else Inl NotImplementedError))"

section \<open>The query compiler\<close>

text \<open>
  The state of the loop of \<^verbatim>\<open>query\<close>: \<^verbatim>\<open>mongo_query\<close> and \<^verbatim>\<open>merge_query\<close> (a
  \<^verbatim>\<open>defaultdict(list)\<close>: a key is created on first access).
\<close>

type_synonym merge_query = "(string \<times> pyval list) list"

text \<open>
  Lines 45--51: \<^verbatim>\<open>parts[-1]\<close> raises IndexError on an empty list; the operator is popped when
  the last part is in \<^verbatim>\<open>MATCH_OPERATORS\<close>, then a last part \<^verbatim>\<open>'not'\<close> is popped and sets
  \<^verbatim>\<open>negate\<close>.
\<close>

definition query_op :: "string list \<Rightarrow> error + (string list \<times> string option \<times> bool)" where
  "query_op parts =
     (if parts = [] then Inl IndexError
      else let (parts1, op) =
                 (if last parts \<in> set MATCH_OPERATORS then (butlast parts, Some (last parts))
                  else (parts, None))
           in if parts1 = [] then Inl IndexError
              else if last parts1 = ''not'' then Inr (butlast parts1, op, True)
              else Inr (parts1, op, False))"

definition singular_ops :: "string option list" where
  "singular_ops =
     None # map Some ([''ne'', ''gt'', ''gte'', ''lt'', ''lte'', ''not''] @ STRING_OPERATORS)"

text \<open>
  Lines 53--89.  \<^verbatim>\<open>cleaned_fields\<close> holds no string, so the test \<^verbatim>\<open>isinstance(field, str)\<close>
  of line 78 is never true and the value goes through the field.
\<close>

definition query_fields ::
  "doc_cls \<Rightarrow> string list \<Rightarrow> string option \<Rightarrow> pyval \<Rightarrow> error + (string list \<times> field_meta \<times> pyval)"
where
  "query_fields cls parts op v =
     (case cls parts of
        None \<Rightarrow> Inl InvalidQueryError
      | Some items \<Rightarrow>
          let names = field_names items;
              cleaned = cleaned_fields items
          in if cleaned = [] then Inl IndexError
             else let field = last cleaned in
               if op \<in> set singular_ops
                 then Inr (names, field, prepare_query_value field op v)
               else if op \<in> set (map Some [''in'', ''nin'', ''all'', ''near'']) \<and> \<not> is_dict v
                 then (case py_iter v of
                         Inl e \<Rightarrow> Inl e
                       | Inr xs \<Rightarrow> Inr (names, field, PList (map (prepare_query_value field op) xs)))
               else Inr (names, field, v))"

text \<open>
  Lines 92--102.  Without a document class the local \<^verbatim>\<open>field\<close> is unbound when a geo
  operator reads it.
\<close>

definition query_operator :: "field_meta option \<Rightarrow> string option \<Rightarrow> pyval \<Rightarrow> error + pyval" where
  "query_operator field op v =
     (case op of
        None \<Rightarrow> Inr v
      | Some opn \<Rightarrow>
          if opn \<in> set GEO_OPERATORS
            then (case field of None \<Rightarrow> Inl NameError | Some f \<Rightarrow> geo_operator f opn v)
          else if opn \<in> set CUSTOM_OPERATORS
            then (if opn = ''match'' then Inr (PDict [(''$elemMatch'', v)]) else Inr v)
          else if opn \<notin> set STRING_OPERATORS then Inr (PDict [(''$'' @ opn, v)])
          else Inr v)"

text \<open>Lines 116--124: the merged document rebuilt with \<^verbatim>\<open>$maxDistance\<close> last.\<close>

definition max_distance_last :: "pydict \<Rightarrow> pydict" where
  "max_distance_last d =
     (case map_of d ''$maxDistance'' of
        None \<Rightarrow> d
      | Some md \<Rightarrow> filter (\<lambda>p. fst p \<noteq> ''$maxDistance'') d @ [(''$maxDistance'', md)])"

text \<open>\<^verbatim>\<open>merge_query[key].append(value)\<close>\<close>

definition merge_append :: "merge_query \<Rightarrow> string \<Rightarrow> pyval \<Rightarrow> merge_query" where
  "merge_append mg key v =
     dict_setitem mg key (case map_of mg key of None \<Rightarrow> [v] | Some vs \<Rightarrow> vs @ [v])"

text \<open>
  Lines 110--127.  \<^verbatim>\<open>dict.update\<close> is given mappings only: a value that is not a mapping is
  an error of the model here (Python would also take an iterable of key/value pairs).
\<close>

definition query_store ::
  "pydict \<times> merge_query \<Rightarrow> string \<Rightarrow> string option \<Rightarrow> pyval \<Rightarrow> error + (pydict \<times> merge_query)"
where
  "query_store st key op v =
     (case map_of (fst st) key of
        None \<Rightarrow> Inr (dict_setitem (fst st) key v, snd st)
      | Some cur \<Rightarrow>
          if op = None then Inr (dict_setitem (fst st) key v, snd st)
          else (case cur of
                  PDict d \<Rightarrow>
                    (case v of
                       PDict e \<Rightarrow>
                         Inr (dict_setitem (fst st) key (PDict (max_distance_last (dict_update d e))),
                              snd st)
                     | _ \<Rightarrow> Inl TypeError)
                | _ \<Rightarrow> Inr (fst st, merge_append (snd st) key v)))"

text \<open>Lines 40--109: from a keyword to the storage key, the operator and the compiled value.\<close>

definition query_resolve ::
  "doc_cls option \<Rightarrow> string \<Rightarrow> pyval \<Rightarrow> error + (string \<times> string option \<times> pyval)"
where
  "query_resolve cls key v =
     (let parts0 = split_dunder key;
          indices = digit_indices parts0
      in case query_op (strip_digits parts0) of
           Inl e \<Rightarrow> Inl e
         | Inr (parts, op, negate) \<Rightarrow>
             (case (case cls of
                      None \<Rightarrow> Inr (parts, None, v)
                    | Some c \<Rightarrow>
                        (case query_fields c parts op v of
                           Inl e \<Rightarrow> Inl e
                         | Inr (names, field, v1) \<Rightarrow> Inr (names, Some field, v1))) of
                Inl e \<Rightarrow> Inl e
              | Inr (parts1, field, v1) \<Rightarrow>
                  (case query_operator field op v1 of
                     Inl e \<Rightarrow> Inl e
                   | Inr v2 \<Rightarrow>
                       Inr (join_dot (reinsert indices parts1), op,
                            if negate then PDict [(''$not'', v2)] else v2))))"

text \<open>One turn of the loop (lines 35--127).\<close>

definition query_pair ::
  "doc_cls option \<Rightarrow> pydict \<times> merge_query \<Rightarrow> string \<times> pyval \<Rightarrow> error + (pydict \<times> merge_query)"
where
  "query_pair cls st kv =
     (if fst kv = ''__raw__''
        then (case snd kv of
                PDict e \<Rightarrow> Inr (dict_update (fst st) e, snd st)
              | _ \<Rightarrow> Inl TypeError)
      else (case query_resolve cls (fst kv) (snd kv) of
              Inl e \<Rightarrow> Inl e
            | Inr (key, op, v) \<Rightarrow> query_store st key op v))"

fun query_loop ::
  "doc_cls option \<Rightarrow> pydict \<times> merge_query \<Rightarrow> (string \<times> pyval) list \<Rightarrow> error + (pydict \<times> merge_query)"
where
  "query_loop cls st [] = Inr st"
| "query_loop cls st (kv # kvs) =
     (case query_pair cls st kv of Inl e \<Rightarrow> Inl e | Inr st' \<Rightarrow> query_loop cls st' kvs)"

text \<open>
  Lines 130--138.  \<^verbatim>\<open>v\<close> is the list object of \<^verbatim>\<open>merge_query[k]\<close>, so it holds the value
  appended on line 131; \<^verbatim>\<open>mongo_query['$and'].append(value)\<close> adds the whole list
  \<^verbatim>\<open>value\<close> as one element, and needs a list to append to.
\<close>

fun query_merge :: "merge_query \<Rightarrow> pydict \<Rightarrow> error + pydict" where
  "query_merge [] mq = Inr mq"
| "query_merge ((k, v) # rest) mq =
     (case map_of mq k of
        None \<Rightarrow> Inl KeyError
      | Some cur \<Rightarrow>
          let mq1 = dict_delitem mq k;
              val = map (\<lambda>x. PDict [(k, x)]) (v @ [cur])
          in (case map_of mq1 ''$and'' of
                None \<Rightarrow> query_merge rest (dict_setitem mq1 ''$and'' (PList val))
              | Some (PList xs) \<Rightarrow>
                  query_merge rest (dict_setitem mq1 ''$and'' (PList (xs @ [PList val])))
              | Some _ \<Rightarrow> Inl AttributeError))"

text \<open>
  \<^verbatim>\<open>query(_doc_cls, **query)\<close>: the keyword arguments are a list of pairs with distinct
  keys, visited in the order of \<^verbatim>\<open>sorted(query.items())\<close>.
\<close>

definition query :: "doc_cls option \<Rightarrow> (string \<times> pyval) list \<Rightarrow> error + pyval" where
  "query cls kwargs =
     (case query_loop cls ([], []) (sort_key fst kwargs) of
        Inl e \<Rightarrow> Inl e
      | Inr (mq, mg) \<Rightarrow>
          (case query_merge mg mq of Inl e \<Rightarrow> Inl e | Inr r \<Rightarrow> Inr (PDict r)))"

section \<open>The update compiler\<close>

text \<open>\<^verbatim>\<open>p in s\<close> on strings.\<close>

fun starts_with :: "string \<Rightarrow> string \<Rightarrow> bool" where
  "starts_with s [] = True"
| "starts_with [] (c # p) = False"
| "starts_with (a # s) (c # p) = (a = c \<and> starts_with s p)"

fun str_contains :: "string \<Rightarrow> string \<Rightarrow> bool" where
  "str_contains [] p = (p = [])"
| "str_contains (a # s) p = (starts_with (a # s) p \<or> str_contains s p)"

fun is_list :: "pyval \<Rightarrow> bool" where
  "is_list (PList xs) = True"
| "is_list v = False"

text \<open>
  Lines 156--168.  \<^verbatim>\<open>value > 0\<close> and \<^verbatim>\<open>-value\<close> are modelled on numbers; comparing any
  other value with \<^verbatim>\<open>0\<close> is taken to raise TypeError.
\<close>

definition update_canon :: "string \<Rightarrow> pyval \<Rightarrow> error + (string \<times> pyval)" where
  "update_canon op v =
     (if op = ''pull_all'' then Inr (''pullAll'', v)
      else if op = ''dec''
        then (case v of
                PInt n \<Rightarrow> Inr (''inc'', if n > 0 then PInt (- n) else PInt n)
              | _ \<Rightarrow> Inl TypeError)
      else if op = ''add_to_set'' then Inr (''addToSet'', v)
      else if op = ''set_on_insert'' then Inr (''setOnInsert'', v)
      else Inr (op, v))"

text \<open>Lines 174--208.\<close>

definition update_fields ::
  "doc_cls \<Rightarrow> string list \<Rightarrow> string option \<Rightarrow> pyval \<Rightarrow> error + (string list \<times> pyval)"
where
  "update_fields cls parts op v =
     (case cls parts of
        None \<Rightarrow> Inl InvalidQueryError
      | Some items \<Rightarrow>
          let names = update_field_names items;
              cleaned = cleaned_fields items
          in if cleaned = [] then Inl IndexError
             else let field = last cleaned in
               if op \<in> set [None, Some ''set'', Some ''push'', Some ''pull'']
                 then (if required field \<or> v \<noteq> PNone
                       then Inr (names, prepare_query_value field op v)
                       else Inr (names, v))
               else if op \<in> set [Some ''pushAll'', Some ''pullAll'']
                 then (case py_iter v of
                         Inl e \<Rightarrow> Inl e
                       | Inr xs \<Rightarrow> Inr (names, PList (map (prepare_query_value field op) xs)))
               else if op = Some ''addToSet''
                 then (case v of
                         PList xs \<Rightarrow> Inr (names, PList (map (prepare_query_value field op) xs))
                       | PTuple xs \<Rightarrow> Inr (names, PList (map (prepare_query_value field op) xs))
                       | _ \<Rightarrow>
                           if required field \<or> v \<noteq> PNone
                           then Inr (names, prepare_query_value field op v)
                           else Inr (names, v))
               else Inr (names, v))"

text \<open>
  Lines 151--212: from a keyword to the canonical operator, the resolved parts and the
  value.  \<^verbatim>\<open>key.split('__')\<close> is used as it is: the parts keep their numeric segments.
\<close>

definition update_resolve ::
  "doc_cls option \<Rightarrow> string \<Rightarrow> pyval \<Rightarrow> error + (string option \<times> string list \<times> pyval)"
where
  "update_resolve cls key v =
     (case split_dunder key of
        [] \<Rightarrow> Inl IndexError
      | p # ps \<Rightarrow>
          (case (if p \<in> set UPDATE_OPERATORS
                 then (case update_canon p v of
                         Inl e \<Rightarrow> Inl e
                       | Inr (op, v1) \<Rightarrow> Inr (Some op, ps, v1))
                 else Inr (None, p # ps, v)) of
             Inl e \<Rightarrow> Inl e
           | Inr (op, parts1, v1) \<Rightarrow>
               if parts1 = [] then Inl IndexError
               else let match = (if last parts1 \<in> set COMPARISON_OPERATORS
                                 then Some (last parts1) else None);
                        parts2 = (if last parts1 \<in> set COMPARISON_OPERATORS
                                  then butlast parts1 else parts1)
                    in (case (case cls of
                                None \<Rightarrow> Inr (parts2, v1)
                              | Some c \<Rightarrow> update_fields c parts2 op v1) of
                          Inl e \<Rightarrow> Inl e
                        | Inr (parts3, v2) \<Rightarrow>
                            Inr (op, parts3,
                                 case match of None \<Rightarrow> v2
                                 | Some m \<Rightarrow> PDict [(''$'' @ m, v2)]))))"

text \<open>
  Lines 214--233 for an operator \<^verbatim>\<open>op\<close>: the value stored in the bucket.  The loop
  \<^verbatim>\<open>parts.reverse(); for key in parts: value = {key: value}\<close> is the left fold over the
  reversed parts.
\<close>

definition update_value :: "string \<Rightarrow> string list \<Rightarrow> pyval \<Rightarrow> error + pyval" where
  "update_value op parts v =
     (if str_contains op ''pull'' \<and> CHR ''.'' \<in> set (join_dot parts)
        then (if op = ''pullAll'' then Inl InvalidQueryError
              else Inr (foldl (\<lambda>acc k. PDict [(k, acc)]) v (rev parts)))
      else if op = ''addToSet'' \<and> is_list v
        then Inr (PDict [(join_dot parts, PDict [(''$each'', v)])])
      else Inr (PDict [(join_dot parts, v)]))"

text \<open>
  Lines 234--239: the bucket \<^verbatim>\<open>'$' + op\<close>.  A bucket that exists and is not a mapping is
  left as it is.
\<close>

definition update_store :: "pydict \<Rightarrow> string \<Rightarrow> pyval \<Rightarrow> error + pydict" where
  "update_store mu key v =
     (case map_of mu key of
        None \<Rightarrow> Inr (dict_setitem mu key v)
      | Some (PDict d) \<Rightarrow>
          (case v of
             PDict e \<Rightarrow> Inr (dict_setitem mu key (PDict (dict_update d e)))
           | _ \<Rightarrow> Inl TypeError)
      | Some _ \<Rightarrow> Inr mu)"

text \<open>One turn of the loop (lines 147--239).\<close>

definition update_pair :: "doc_cls option \<Rightarrow> pydict \<Rightarrow> string \<times> pyval \<Rightarrow> error + pydict" where
  "update_pair cls mu kv =
     (if fst kv = ''__raw__''
        then (case snd kv of PDict e \<Rightarrow> Inr (dict_update mu e) | _ \<Rightarrow> Inl TypeError)
      else (case update_resolve cls (fst kv) (snd kv) of
              Inl e \<Rightarrow> Inl e
            | Inr (None, parts, v) \<Rightarrow> Inl InvalidQueryError
            | Inr (Some op, parts, v) \<Rightarrow>
                (case update_value op parts v of
                   Inl e \<Rightarrow> Inl e
                 | Inr v' \<Rightarrow> update_store mu (''$'' @ op) v')))"

fun update_loop :: "doc_cls option \<Rightarrow> pydict \<Rightarrow> (string \<times> pyval) list \<Rightarrow> error + pydict" where
  "update_loop cls mu [] = Inr mu"
| "update_loop cls mu (kv # kvs) =
     (case update_pair cls mu kv of Inl e \<Rightarrow> Inl e | Inr mu' \<Rightarrow> update_loop cls mu' kvs)"

text \<open>\<^verbatim>\<open>update(_doc_cls, **update)\<close>: the keyword arguments in the order of the mapping.\<close>

definition update :: "doc_cls option \<Rightarrow> (string \<times> pyval) list \<Rightarrow> error + pyval" where
  "update cls kwargs =
     (case update_loop cls [] kwargs of Inl e \<Rightarrow> Inl e | Inr r \<Rightarrow> Inr (PDict r))"

section \<open>Documents\<close>

text \<open>Truth value of a Python value (\<^verbatim>\<open>if not x\<close>).\<close>

fun truthy :: "pyval \<Rightarrow> bool" where
  "truthy PNone = False"
| "truthy (PInt n) = (n \<noteq> 0)"
| "truthy (PStr s) = (s \<noteq> [])"
| "truthy (PList xs) = (xs \<noteq> [])"
| "truthy (PTuple xs) = (xs \<noteq> [])"
| "truthy (PDict d) = (d \<noteq> [])"

text \<open>
  The calls \<^verbatim>\<open>Document\<close> makes to the storage collaborator, in the order made:
  \<^verbatim>\<open>collection.update(filter, update_query, **write_concern)\<close>,
  \<^verbatim>\<open>collection.insert(doc, **write_concern)\<close> and
  \<^verbatim>\<open>self._qs.filter(**self._object_key).update_one(**kwargs)\<close>.
\<close>

datatype storage_call =
    CollectionUpdate pyval pyval pydict
  | CollectionInsert pyval pydict
  | QuerySetUpdateOne pyval "(string \<times> pyval) list"

text \<open>
  What \<^verbatim>\<open>document.py\<close> reads of an instance.  \<^verbatim>\<open>pk\<close> is the property
  \<^verbatim>\<open>getattr(self, self._meta['id_field'])\<close>, whose attribute lookup lives in
  \<^verbatim>\<open>BaseDocument\<close>; \<^verbatim>\<open>db_id_field\<close> is \<^verbatim>\<open>self._fields[id_field].db_field\<close>.
\<close>

record document =
  created :: bool
  id_field :: string
  db_id_field :: string
  pk :: pyval
  internal_data :: pydict
  db_data :: pydict
  collection_name :: string

datatype dbref = DBRef string pyval

text \<open>\<^verbatim>\<open>if not write_concern: write_concern = {'w': 1}\<close>\<close>

definition default_write_concern :: "pydict option \<Rightarrow> pydict" where
  "default_write_concern wc =
     (case wc of None \<Rightarrow> [(''w'', PInt 1)]
      | Some d \<Rightarrow> if d = [] then [(''w'', PInt 1)] else d)"

text \<open>Lines 156--172 of \<^verbatim>\<open>Document.save\<close>: the update query built from the delta.\<close>

definition save_update_query :: "string \<Rightarrow> pydict \<times> pydict \<Rightarrow> pydict" where
  "save_update_query idf delta =
     (let sets = dict_delitem (fst delta) idf;
          unsets = snd delta;
          uq = (if sets \<noteq> [] then dict_setitem [] ''$set'' (PDict sets) else [])
      in if unsets \<noteq> [] then dict_setitem uq ''$unset'' (PDict unsets) else uq)"

text \<open>
  \<^verbatim>\<open>Document.save\<close>.  \<^verbatim>\<open>self._delta()\<close> and \<^verbatim>\<open>self._to_son()\<close> belong to
  \<^verbatim>\<open>BaseDocument\<close> and are parameters, as is the identifier \<^verbatim>\<open>collection.insert\<close>
  returns.  The result is the outcome together with the calls made so far.
\<close>

definition save ::
  "(document \<Rightarrow> pydict \<times> pydict) \<Rightarrow> (document \<Rightarrow> pyval) \<Rightarrow> pyval \<Rightarrow>
   document \<Rightarrow> pydict option \<Rightarrow> storage_call list \<Rightarrow> (error + document) \<times> storage_call list"
where
  "save delta_of to_son object_id doc write_concern calls =
     (let wc = default_write_concern write_concern in
      if created doc then
        (let update_query = save_update_query (db_id_field doc) (delta_of doc)
         in if update_query \<noteq> []
            then (Inr doc,
                  calls @ [CollectionUpdate (PDict [(db_id_field doc, pk doc)])
                             (PDict update_query) wc])
            else (Inr doc, calls))
      else
        (let calls' = calls @ [CollectionInsert (to_son doc) wc] in
         if id_field doc \<notin> set (dict_keys (internal_data doc)) then (Inl KeyError, calls')
         else (Inr (doc\<lparr>created := True,
                         internal_data := dict_delitem (internal_data doc) (id_field doc),
                         db_data := dict_setitem (db_data doc) (db_id_field doc) object_id\<rparr>),
               calls')))"

text \<open>\<^verbatim>\<open>Document.update\<close>; \<open>res\<close> is what \<^verbatim>\<open>update_one\<close> returns.\<close>

definition document_update ::
  "document \<Rightarrow> (string \<times> pyval) list \<Rightarrow> pyval \<Rightarrow> storage_call list \<Rightarrow>
   (error + pyval) \<times> storage_call list"
where
  "document_update doc kwargs res calls =
     (if \<not> truthy (pk doc) then (Inl OperationError, calls)
      else (Inr res, calls @ [QuerySetUpdateOne (PDict [(''pk'', pk doc)]) kwargs]))"

text \<open>\<^verbatim>\<open>Document.to_dbref\<close>\<close>

definition to_dbref ::
  "document \<Rightarrow> storage_call list \<Rightarrow> (error + dbref) \<times> storage_call list"
where
  "to_dbref doc calls =
     (if \<not> truthy (pk doc) then (Inl OperationError, calls)
      else (Inr (DBRef (collection_name doc) (pk doc)), calls))"

section \<open>The change tracker and the delta engine\<close>

text \<open>
  \<^verbatim>\<open>BaseDocument\<close>, which holds \<^verbatim>\<open>_delta\<close> and \<^verbatim>\<open>_get_changed_fields\<close>, is not among
  the sources; \<^verbatim>\<open>tests/document/test_delta.py\<close> calls them.  The definitions of this
  section follow the specification's section 4.4 and data model, read so that they agree
  with the assertions of that test: there a field is cleared that was filled in memory
  only, so "previously had content" is about the value a mutation replaces.
\<close>

text \<open>
  Modelled from the spec: \<^verbatim>\<open>BaseDocument._delta\<close> is missing; "absent/empty" against
  "had content".  A scalar (a number or a string) always has content; \<^verbatim>\<open>None\<close> and the
  empty containers have none.
\<close>

fun has_content :: "pyval \<Rightarrow> bool" where
  "has_content PNone = False"
| "has_content (PInt n) = True"
| "has_content (PStr s) = True"
| "has_content (PList xs) = (xs \<noteq> [])"
| "has_content (PTuple xs) = (xs \<noteq> [])"
| "has_content (PDict d) = (d \<noteq> [])"


text \<open>
  Modelled from the spec: \<^verbatim>\<open>BaseDocument._delta\<close> is missing; the same test on the value
  found at a path, an absent value having no content.
\<close>

definition content_at :: "pyval option \<Rightarrow> bool" where
  "content_at x = (case x of None \<Rightarrow> False | Some v \<Rightarrow> has_content v)"

text \<open>
  Modelled from the spec: the path walk of \<^verbatim>\<open>BaseDocument._delta\<close> is missing; a
  FieldPath is a sequence of field names and numeric array indices.  An index segment is
  read as a decimal number.
\<close>

definition digits_value :: "string \<Rightarrow> nat" where
  "digits_value p = foldl (\<lambda>n c. 10 * n + (of_char c - 48)) 0 p"

text \<open>
  Modelled from the spec: the path walk of \<^verbatim>\<open>BaseDocument._delta\<close> is missing; the value
  at a path, through mappings by field name and through lists by index.
\<close>

fun lookup_path :: "pyval \<Rightarrow> string list \<Rightarrow> pyval option" where
  "lookup_path v [] = Some v"
| "lookup_path (PDict d) (p # ps) =
     (case map_of d p of None \<Rightarrow> None | Some x \<Rightarrow> lookup_path x ps)"
| "lookup_path (PList xs) (p # ps) =
     (if isdigit p \<and> digits_value p < length xs then lookup_path (xs ! digits_value p) ps
      else None)"
| "lookup_path v (p # ps) = None"

text \<open>
  Modelled from the spec: the document state of \<^verbatim>\<open>BaseDocument\<close> is missing; a document
  instance is NEW or was hydrated, holds the discriminator tag of a registered
  polymorphic subclass, the prior persisted state, the current field values, and the
  ChangeSet: the dirtied paths in path order, each with whether the value its mutation
  replaced had content.
\<close>

record tracked =
  is_new :: bool
  discriminator :: "string option"
  prior :: pydict
  current :: pydict
  changed :: "(string list \<times> bool) list"






text \<open>
  Modelled from the spec: \<^verbatim>\<open>BaseDocument._delta\<close> is missing; for each recorded dirty
  path in path order, a value now absent or empty that previously had content gives
  \<^verbatim>\<open>unsets[path] = 1\<close>, and every other path gives \<^verbatim>\<open>sets[path] = serialize(value)\<close> at
  the dotted path (the re-prefixed keys of an embedded delta, the index-scoped key of an
  array element, or the field's own key).  \<open>ser\<close> is the field collaborator's
  serialization.
\<close>

fun delta_paths ::
  "(pyval \<Rightarrow> pyval) \<Rightarrow> pydict \<Rightarrow> (string list \<times> bool) list \<Rightarrow> pydict \<times> pydict \<Rightarrow> pydict \<times> pydict"
where
  "delta_paths ser now [] acc = acc"
| "delta_paths ser now ((p, had) # ps) acc =
     (if \<not> content_at (lookup_path (PDict now) p) \<and> had
      then delta_paths ser now ps (fst acc, dict_setitem (snd acc) (join_dot p) (PInt 1))
      else delta_paths ser now ps
             (dict_setitem (fst acc) (join_dot p)
                (ser (case lookup_path (PDict now) p of None \<Rightarrow> PNone | Some v \<Rightarrow> v)),
              snd acc))"

text \<open>
  Modelled from the spec: \<^verbatim>\<open>BaseDocument._delta\<close> is missing; a NEW document sets every
  field's serialized value (with the discriminator tag, stored under \<^verbatim>\<open>_cls\<close>, when the
  type is a registered polymorphic subclass) and unsets nothing, an existing one walks
  its dirty paths.
\<close>

definition delta :: "(pyval \<Rightarrow> pyval) \<Rightarrow> tracked \<Rightarrow> pydict \<times> pydict" where
  "delta ser doc =
     (if is_new doc
      then (map (\<lambda>kv. (fst kv, ser (snd kv))) (current doc)
              @ (case discriminator doc of None \<Rightarrow> [] | Some t \<Rightarrow> [(''_cls'', PStr t)]),
            [])
      else delta_paths ser (current doc) (changed doc) ([], []))"

text \<open>
  Modelled from the spec: \<^verbatim>\<open>BaseDocument._get_changed_fields\<close> is missing; the exposed
  \<^verbatim>\<open>getChangedPaths\<close> gives the dirtied paths as dotted strings.
\<close>

definition get_changed_paths :: "tracked \<Rightarrow> string list" where
  "get_changed_paths doc = map (\<lambda>c. join_dot (fst c)) (changed doc)"

section \<open>Auxiliary facts\<close>

lemma split_sep_nonempty: "split_sep cur s \<noteq> []"
  by (induction cur s rule: split_sep.induct) auto

lemma split_dunder_nonempty: "split_dunder key \<noteq> []"
  by (simp add: split_dunder_def split_sep_nonempty)

lemma split_dec: "split_dunder (''dec__'' @ f) = ''dec'' # split_dunder f"
  by (simp add: split_dunder_def)

lemma keys_dict_delitem: "k \<notin> set (dict_keys (dict_delitem d k))"
  by (auto simp: dict_keys_def dict_delitem_def)

lemma map_of_dict_setitem: "map_of (dict_setitem d k v) = (map_of d)(k \<mapsto> v)"
  by (induction d k v rule: dict_setitem.induct) auto

section \<open>The update compiler: decrement\<close>

text \<open>
  C5.  \<^verbatim>\<open>dec\<close> is canonicalized to \<^verbatim>\<open>$inc\<close>: for every path \<open>f\<close> that does not end in a
  comparison operator and every number \<open>n\<close>, \<^verbatim>\<open>update(dec__f=n)\<close> is
  \<^verbatim>\<open>{"$inc": {path: -n}}\<close> when \<open>n\<close> is positive and \<^verbatim>\<open>{"$inc": {path: n}}\<close> otherwise.
\<close>

theorem dec_becomes_negative_inc:
  assumes "last (split_dunder f) \<notin> set COMPARISON_OPERATORS"
  shows "update None [(''dec__'' @ f, PInt n)] =
           Inr (PDict [(''$inc'', PDict [(join_dot (split_dunder f),
                                          PInt (if 0 < n then - n else n))])])"
proof -
  have nr: "''dec__'' @ f \<noteq> ''__raw__''" by simp
  have res: "update_resolve None (''dec__'' @ f) (PInt n) =
          Inr (Some ''inc'', split_dunder f, PInt (if 0 < n then - n else n))"
    using assms split_dunder_nonempty [of f] unfolding update_resolve_def split_dec
    by (simp add: UPDATE_OPERATORS_def update_canon_def)
  have val: "update_value ''inc'' ps v = Inr (PDict [(join_dot ps, v)])" for ps v
    by (simp add: update_value_def)
  show ?thesis
    unfolding update_def
    by (simp add: update_pair_def res val update_store_def nr del: append.simps)
qed

text \<open>The specification's example, \<^verbatim>\<open>compileUpdate(dec__hits=1)\<close>.\<close>

theorem dec_becomes_negative_inc_witness:
  "update None [(''dec__hits'', PInt 1)] = Inr (PDict [(''$inc'', PDict [(''hits'', PInt (- 1))])])"
  using dec_becomes_negative_inc [of "''hits''" 1]
  by (simp add: split_dunder_def COMPARISON_OPERATORS_def)

section \<open>Documents: unsaved documents and saving a delta\<close>

text \<open>
  C9.  \<^verbatim>\<open>Document.update\<close> and \<^verbatim>\<open>Document.to_dbref\<close> on a document whose primary key is
  unset (any false value, \<^verbatim>\<open>None\<close> among them) raise OperationError, and the list of calls
  made to the storage collaborator is the one they were entered with.
\<close>

theorem unsaved_document_raises_before_storage:
  assumes "\<not> truthy (pk doc)"
  shows "document_update doc kwargs res calls = (Inl OperationError, calls)
         \<and> to_dbref doc calls = (Inl OperationError, calls)"
  using assms by (simp add: document_update_def to_dbref_def)

theorem unsaved_document_raises_witness:
  "document_update \<lparr>created = False, id_field = ''id'', db_id_field = ''_id'', pk = PNone,
       internal_data = [], db_data = [], collection_name = ''site''\<rparr>
       [(''set__name'', PStr ''x'')] PNone []
     = (Inl OperationError, [])
   \<and> to_dbref \<lparr>created = False, id_field = ''id'', db_id_field = ''_id'', pk = PNone,
       internal_data = [], db_data = [], collection_name = ''site''\<rparr> []
     = (Inl OperationError, [])"
  using unsaved_document_raises_before_storage
    [of "\<lparr>created = False, id_field = ''id'', db_id_field = ''_id'', pk = PNone,
       internal_data = [], db_data = [], collection_name = ''site''\<rparr>"
        "[(''set__name'', PStr ''x'')]" PNone "[]"]
  by simp

text \<open>
  C10.  For a previously persisted document, \<^verbatim>\<open>save\<close> makes at most one call, a
  \<^verbatim>\<open>collection.update\<close> with the update query built from the delta; the \<^verbatim>\<open>$set\<close> document
  of that query never has the primary key's storage field; and when the delta's sets and
  unsets are both empty no call is made.
\<close>

theorem save_update_omits_id:
  assumes "created doc"
  shows "save delta_of to_son oid doc wc calls =
           (Inr doc,
            if save_update_query (db_id_field doc) (delta_of doc) = [] then calls
            else calls @ [CollectionUpdate (PDict [(db_id_field doc, pk doc)])
                            (PDict (save_update_query (db_id_field doc) (delta_of doc)))
                            (default_write_concern wc)])
         \<and> (\<forall>s. map_of (save_update_query (db_id_field doc) (delta_of doc)) ''$set'' = Some (PDict s)
                \<longrightarrow> db_id_field doc \<notin> set (dict_keys s))
         \<and> (fst (delta_of doc) = [] \<and> snd (delta_of doc) = []
                \<longrightarrow> save delta_of to_son oid doc wc calls = (Inr doc, calls))"
proof (intro conjI allI impI)
  show "save delta_of to_son oid doc wc calls =
           (Inr doc,
            if save_update_query (db_id_field doc) (delta_of doc) = [] then calls
            else calls @ [CollectionUpdate (PDict [(db_id_field doc, pk doc)])
                            (PDict (save_update_query (db_id_field doc) (delta_of doc)))
                            (default_write_concern wc)])"
    using assms by (simp add: save_def Let_def)
next
  fix s
  assume "map_of (save_update_query (db_id_field doc) (delta_of doc)) ''$set'' = Some (PDict s)"
  then have "s = dict_delitem (fst (delta_of doc)) (db_id_field doc)"
    by (auto simp: save_update_query_def Let_def map_of_dict_setitem split: if_splits)
  then show "db_id_field doc \<notin> set (dict_keys s)"
    by (simp add: keys_dict_delitem)
next
  assume "fst (delta_of doc) = [] \<and> snd (delta_of doc) = []"
  then have "save_update_query (db_id_field doc) (delta_of doc) = []"
    by (simp add: save_update_query_def dict_delitem_def)
  then show "save delta_of to_son oid doc wc calls = (Inr doc, calls)"
    using assms by (simp add: save_def Let_def)
qed

text \<open>
  A saved document whose delta sets the identifier and a name: the call carries the name
  only; and with an empty delta there is no call.
\<close>

theorem save_update_omits_id_witness:
  "save (\<lambda>d. ([(''_id'', PInt 7), (''name'', PStr ''x'')], [])) (\<lambda>d. PNone) PNone
        \<lparr>created = True, id_field = ''id'', db_id_field = ''_id'', pk = PInt 7,
         internal_data = [], db_data = [(''_id'', PInt 7)], collection_name = ''site''\<rparr> None []
     = (Inr \<lparr>created = True, id_field = ''id'', db_id_field = ''_id'', pk = PInt 7,
             internal_data = [], db_data = [(''_id'', PInt 7)], collection_name = ''site''\<rparr>,
        [CollectionUpdate (PDict [(''_id'', PInt 7)])
           (PDict [(''$set'', PDict [(''name'', PStr ''x'')])]) [(''w'', PInt 1)]])
   \<and> save (\<lambda>d. ([], [])) (\<lambda>d. PNone) PNone
        \<lparr>created = True, id_field = ''id'', db_id_field = ''_id'', pk = PInt 7,
         internal_data = [], db_data = [(''_id'', PInt 7)], collection_name = ''site''\<rparr> None []
     = (Inr \<lparr>created = True, id_field = ''id'', db_id_field = ''_id'', pk = PInt 7,
             internal_data = [], db_data = [(''_id'', PInt 7)], collection_name = ''site''\<rparr>,
        [])"
  using save_update_omits_id
    [of "\<lparr>created = True, id_field = ''id'', db_id_field = ''_id'', pk = PInt 7,
         internal_data = [], db_data = [(''_id'', PInt 7)], collection_name = ''site''\<rparr>"
        "\<lambda>d. ([(''_id'', PInt 7), (''name'', PStr ''x'')], [])" "\<lambda>d. PNone" PNone None "[]"]
    save_update_omits_id
    [of "\<lparr>created = True, id_field = ''id'', db_id_field = ''_id'', pk = PInt 7,
         internal_data = [], db_data = [(''_id'', PInt 7)], collection_name = ''site''\<rparr>"
        "\<lambda>d. ([], [])" "\<lambda>d. PNone" PNone None "[]"]
  by (simp add: save_update_query_def dict_delitem_def default_write_concern_def)

section \<open>Geometry inference: the cases\<close>

lemma indexable_one_list: "indexable (Suc 0) (PList xs) = (xs \<noteq> [])"
  by (cases xs) simp_all

text \<open>
  C7 (as amended).  \<^verbatim>\<open>_infer_geometry\<close> on every value: a mapping holding \<^verbatim>\<open>$geometry\<close>
  is returned as it is, a mapping holding both \<^verbatim>\<open>type\<close> and \<^verbatim>\<open>coordinates\<close> is wrapped
  under \<^verbatim>\<open>$geometry\<close>, any other mapping raises InvalidQueryError; a \<^emph>\<open>list\<close> indexable
  three levels deep is a Polygon, else two levels deep a LineString, else when it is not
  empty a Point, and the empty list raises InvalidQueryError; every value that is neither
  a mapping nor a list (a tuple, a string, a number, \<^verbatim>\<open>None\<close>) raises
  InvalidQueryError, however deep it can be indexed.
\<close>

theorem infer_geometry_cases:
  "infer_geometry v =
     (case v of
        PDict d \<Rightarrow>
          if ''$geometry'' \<in> set (dict_keys d) then Inr v
          else if ''type'' \<in> set (dict_keys d) \<and> ''coordinates'' \<in> set (dict_keys d)
            then Inr (PDict [(''$geometry'', v)])
          else Inl InvalidQueryError
      | PList xs \<Rightarrow>
          if indexable 3 v
            then Inr (PDict [(''$geometry'',
                              PDict [(''type'', PStr ''Polygon''), (''coordinates'', v)])])
          else if indexable 2 v
            then Inr (PDict [(''$geometry'',
                              PDict [(''type'', PStr ''LineString''), (''coordinates'', v)])])
          else if xs \<noteq> []
            then Inr (PDict [(''$geometry'',
                              PDict [(''type'', PStr ''Point''), (''coordinates'', v)])])
          else Inl InvalidQueryError
      | _ \<Rightarrow> Inl InvalidQueryError)"
proof (cases v)
  case (PList xs)
  have "indexable 1 (PList xs) = (xs \<noteq> [])"
    using indexable_one_list [of xs] by simp
  then show ?thesis
    using PList by (simp add: geometry_def del: indexable.simps)
next
  case (PDict d)
  then show ?thesis by auto
qed simp_all

text \<open>
  The claim as stated fails on a tuple: the point \<^verbatim>\<open>(1, 2)\<close> is a sequence indexable one
  level deep, and \<^verbatim>\<open>_infer_geometry\<close> raises InvalidQueryError for it, because line 296
  admits \<^verbatim>\<open>list\<close> and \<^verbatim>\<open>set\<close> only.
\<close>

theorem tuple_point_rejected:
  "indexable 1 (PTuple [PInt 1, PInt 2])
   \<and> infer_geometry (PTuple [PInt 1, PInt 2]) = Inl InvalidQueryError"
  by (simp add: numeral_eq_Suc)

section \<open>The query compiler: folding deferred constraints into \<^verbatim>\<open>$and\<close>\<close>

text \<open>
  With one deferred key and no \<^verbatim>\<open>$and\<close> in the result yet, the fold removes the key and
  creates \<^verbatim>\<open>$and\<close> from the deferred operator documents followed by the bare-equality
  value, each as a single-key document; so it is for \<^verbatim>\<open>query(ref=A, ref__in=[A, B])\<close>.
\<close>

lemma dict_setitem_fresh: "map_of d k = None \<Longrightarrow> dict_setitem d k v = d @ [(k, v)]"
  by (induction d k v rule: dict_setitem.induct) (auto split: if_splits)

lemma single_deferred_key:
  assumes "map_of mq k = Some cur"
    and "map_of (dict_delitem mq k) ''$and'' = None"
  shows "query_merge [(k, vs)] mq =
           Inr (dict_delitem mq k @ [(''$and'', PList (map (\<lambda>x. PDict [(k, x)]) (vs @ [cur])))])"
  using assms by (simp add: Let_def dict_setitem_fresh del: map_append)

lemma ref_in_example:
  assumes "\<not> is_dict a"
  shows "query None [(''ref'', a), (''ref__in'', PList [a, b])] =
           Inr (PDict [(''$and'', PList [PDict [(''ref'', PDict [(''$in'', PList [a, b])])],
                                         PDict [(''ref'', a)]])])"
  using assms
  by (cases a)
     (simp_all add: query_def query_pair_def query_resolve_def split_dunder_def
        digit_indices_def strip_digits_def isdigit_def query_op_def MATCH_OPERATORS_def
        COMPARISON_OPERATORS_def GEO_OPERATORS_def STRING_OPERATORS_def CUSTOM_OPERATORS_def
        query_operator_def query_store_def merge_append_def dict_delitem_def)

text \<open>
  C1.  \<^verbatim>\<open>query(a=1, a__gt=0, b=1, b__gt=0)\<close>: both keys collide with a bare-equality value.
  The fold of lines 130--138 creates \<^verbatim>\<open>$and\<close> from the two documents of \<^verbatim>\<open>a\<close> and then
  \<^emph>\<open>appends the list\<close> of the two documents of \<^verbatim>\<open>b\<close> as one element, so the \<^verbatim>\<open>$and\<close> array
  is not an array of single-key documents: the constraints on \<^verbatim>\<open>b\<close> sit in a nested list.
\<close>

theorem and_append_nests_second_key:
  "query None [(''a'', PInt 1), (''a__gt'', PInt 0), (''b'', PInt 1), (''b__gt'', PInt 0)] =
     Inr (PDict [(''$and'',
            PList [PDict [(''a'', PDict [(''$gt'', PInt 0)])], PDict [(''a'', PInt 1)],
                   PList [PDict [(''b'', PDict [(''$gt'', PInt 0)])], PDict [(''b'', PInt 1)]]])])"
  by code_simp

section \<open>The update compiler: nested pull\<close>

lemma nest_fold:
  "foldl (\<lambda>acc k. PDict [(k, acc)]) v (rev parts) = foldr (\<lambda>k acc. PDict [(k, acc)]) parts v"
  by (simp add: foldr_conv_foldl)

lemma join_dot_has_dot: "2 \<le> length parts \<Longrightarrow> CHR ''.'' \<in> set (join_dot parts)"
  by (cases parts rule: join_dot.cases) auto

lemma split_raw: "split_dunder ''__raw__'' = ['''', ''raw'', '''']"
  by (simp add: split_dunder_def)

lemma resolve_raw_no_op: "update_resolve cls ''__raw__'' v \<noteq> Inr (Some op, parts, w)"
  unfolding update_resolve_def split_raw
  by (auto simp: UPDATE_OPERATORS_def COMPARISON_OPERATORS_def Let_def
      split: option.splits sum.splits)

text \<open>
  C4.  For every update pair (with or without a document class, whatever the update
  document built so far) that resolves to a canonical operator containing \<^verbatim>\<open>pull\<close> and to
  a path of two or more segments: under \<^verbatim>\<open>pullAll\<close> the compiler raises InvalidQueryError;
  otherwise the bucket \<^verbatim>\<open>'$' + op\<close> receives the nested value
  \<^verbatim>\<open>{p1: {p2: ... {pn: value}}}\<close>, first segment outermost, last segment holding the match
  value, and no dotted key.
\<close>

theorem nested_pull:
  assumes "update_resolve cls (fst kv) (snd kv) = Inr (Some op, parts, v)"
    and "str_contains op ''pull''"
    and "2 \<le> length parts"
  shows "(op = ''pullAll'' \<longrightarrow> update_pair cls mu kv = Inl InvalidQueryError)
       \<and> (op \<noteq> ''pullAll'' \<longrightarrow>
            update_pair cls mu kv =
              update_store mu (''$'' @ op) (foldr (\<lambda>k acc. PDict [(k, acc)]) parts v))"
proof -
  have nr: "fst kv \<noteq> ''__raw__''"
    using assms(1) resolve_raw_no_op by metis
  have dot: "CHR ''.'' \<in> set (join_dot parts)"
    using assms(3) by (rule join_dot_has_dot)
  have val: "update_value op parts v =
      (if op = ''pullAll'' then Inl InvalidQueryError
       else Inr (foldr (\<lambda>k acc. PDict [(k, acc)]) parts v))"
    using assms(2) dot by (simp add: update_value_def nest_fold del: str_contains.simps)
  have up: "update_pair cls mu kv =
      (case update_value op parts v of Inl e \<Rightarrow> Inl e
       | Inr w \<Rightarrow> update_store mu (''$'' @ op) w)"
    using nr assms(1) by (simp add: update_pair_def)
  show ?thesis
    unfolding up val by simp
qed

text \<open>
  \<^verbatim>\<open>update(pull_all__a__b=[1])\<close> raises, and \<^verbatim>\<open>update(pull__comments__vote__lt=1)\<close> gives
  \<^verbatim>\<open>{"$pull": {"comments": {"vote": {"$lt": 1}}}}\<close>.
\<close>

theorem nested_pull_witness:
  "update_pair None [] (''pull_all__a__b'', PList [PInt 1]) = Inl InvalidQueryError
   \<and> update_pair None [] (''pull__comments__vote__lt'', PInt 1) =
       Inr [(''$pull'', PDict [(''comments'', PDict [(''vote'', PDict [(''$lt'', PInt 1)])])])]"
  using nested_pull [of None "(''pull_all__a__b'', PList [PInt 1])" "''pullAll''"
                        "[''a'', ''b'']" "PList [PInt 1]" "[]"]
    nested_pull [of None "(''pull__comments__vote__lt'', PInt 1)" "''pull''"
                    "[''comments'', ''vote'']" "PDict [(''$lt'', PInt 1)]" "[]"]
  by (simp add: update_resolve_def split_dunder_def UPDATE_OPERATORS_def COMPARISON_OPERATORS_def
        update_canon_def update_store_def)

section \<open>The query compiler: merging into an operator document\<close>

lemma keys_dict_setitem: "set (dict_keys (dict_setitem d k v)) = insert k (set (dict_keys d))"
  by (induction d k v rule: dict_setitem.induct) (auto simp: dict_keys_def)

lemma keys_dict_update:
  "set (dict_keys (dict_update d e)) = set (dict_keys d) \<union> set (dict_keys e)"
proof (induction d e rule: dict_update.induct)
  case (1 d)
  then show ?case by (simp add: dict_keys_def)
next
  case (2 d k v e)
  then show ?case by (simp add: keys_dict_setitem) (simp add: dict_keys_def)
qed


lemma map_of_filter_other: "k' \<noteq> k \<Longrightarrow> map_of (filter (\<lambda>p. fst p \<noteq> k) d) k' = map_of d k'"
  by (induction d) auto

lemma map_of_filter_same: "map_of (filter (\<lambda>p. fst p \<noteq> k) d) k = None"
  by (induction d) auto

lemma map_of_max_distance_last: "map_of (max_distance_last d) = map_of d"
proof (cases "map_of d ''$maxDistance''")
  case None
  then show ?thesis by (simp add: max_distance_last_def)
next
  case (Some md)
  have "map_of (filter (\<lambda>p. fst p \<noteq> ''$maxDistance'') d @ [(''$maxDistance'', md)]) k = map_of d k" for k
    using Some
    by (cases "k = ''$maxDistance''")
       (auto simp: map_add_def map_of_filter_other map_of_filter_same split: option.splits)
  then show ?thesis using Some by (auto simp: max_distance_last_def)
qed



text \<open>
  C6.  Whenever a pair is merged into the mapping stored for its key and the earlier
  mapping or the later operator document has \<^verbatim>\<open>$maxDistance\<close> (whichever of the two was
  processed first), the mapping stored for the key ends with \<^verbatim>\<open>$maxDistance\<close>, holds it
  once, and has the entries of the plain merge.
\<close>

theorem max_distance_is_last:
  assumes "map_of mq key = Some (PDict d)"
    and "''$maxDistance'' \<in> set (dict_keys d) \<union> set (dict_keys e)"
  shows "\<exists>doc md. query_store (mq, mg) key (Some op) (PDict e) =
                    Inr (dict_setitem mq key (PDict (doc @ [(''$maxDistance'', md)])), mg)
              \<and> ''$maxDistance'' \<notin> set (dict_keys doc)
              \<and> map_of (doc @ [(''$maxDistance'', md)]) = map_of (dict_update d e)"
proof -
  have "''$maxDistance'' \<in> set (dict_keys (dict_update d e))"
    using assms(2) by (simp add: keys_dict_update)
  then obtain md where md: "map_of (dict_update d e) ''$maxDistance'' = Some md"
    by (cases "map_of (dict_update d e) ''$maxDistance''")
       (auto simp: map_of_eq_None_iff dict_keys_def)
  let ?doc = "filter (\<lambda>p. fst p \<noteq> ''$maxDistance'') (dict_update d e)"
  have eq: "max_distance_last (dict_update d e) = ?doc @ [(''$maxDistance'', md)]"
    using md by (simp add: max_distance_last_def)
  have "query_store (mq, mg) key (Some op) (PDict e) =
          Inr (dict_setitem mq key (PDict (?doc @ [(''$maxDistance'', md)])), mg)"
    using assms(1) eq by (simp add: query_store_def)
  moreover have "''$maxDistance'' \<notin> set (dict_keys ?doc)"
    by (auto simp: dict_keys_def)
  moreover have "map_of (?doc @ [(''$maxDistance'', md)]) = map_of (dict_update d e)"
    using map_of_max_distance_last [of "dict_update d e"] eq by simp
  ultimately show ?thesis by blast
qed

text \<open>
  \<^verbatim>\<open>max_distance\<close> is processed before \<^verbatim>\<open>near\<close> (the keys are sorted), and still comes
  last; the second part is the whole compilation for a document class with one legacy 2D
  field \<^verbatim>\<open>loc\<close>.
\<close>

theorem max_distance_is_last_witness:
  "(\<exists>doc md. query_store ([(''loc'', PDict [(''$maxDistance'', PInt 5)])], []) ''loc'' (Some ''near'')
                  (PDict [(''$near'', PList [PInt 1, PInt 2])])
                = Inr (dict_setitem [(''loc'', PDict [(''$maxDistance'', PInt 5)])] ''loc''
                         (PDict (doc @ [(''$maxDistance'', md)])), [])
              \<and> ''$maxDistance'' \<notin> set (dict_keys doc)
              \<and> map_of (doc @ [(''$maxDistance'', md)])
                  = map_of (dict_update [(''$maxDistance'', PInt 5)]
                              [(''$near'', PList [PInt 1, PInt 2])]))
   \<and> query (Some (\<lambda>parts. if parts = [''loc'']
                     then Some [Field \<lparr>db_field = ''loc'', required = False, geo_2d = True,
                                        prepare_query_value = (\<lambda>op v. v)\<rparr>]
                     else None))
        [(''loc__max_distance'', PInt 5), (''loc__near'', PList [PInt 1, PInt 2])]
     = Inr (PDict [(''loc'', PDict [(''$near'', PList [PInt 1, PInt 2]),
                                    (''$maxDistance'', PInt 5)])])"
proof -
  have a: "\<exists>doc md. query_store ([(''loc'', PDict [(''$maxDistance'', PInt 5)])], []) ''loc'' (Some ''near'')
                  (PDict [(''$near'', PList [PInt 1, PInt 2])])
                = Inr (dict_setitem [(''loc'', PDict [(''$maxDistance'', PInt 5)])] ''loc''
                         (PDict (doc @ [(''$maxDistance'', md)])), [])
              \<and> ''$maxDistance'' \<notin> set (dict_keys doc)
              \<and> map_of (doc @ [(''$maxDistance'', md)])
                  = map_of (dict_update [(''$maxDistance'', PInt 5)]
                              [(''$near'', PList [PInt 1, PInt 2])])"
    by (rule max_distance_is_last) (simp_all add: dict_keys_def)
  have b: "query (Some (\<lambda>parts. if parts = [''loc'']
                     then Some [Field \<lparr>db_field = ''loc'', required = False, geo_2d = True,
                                        prepare_query_value = (\<lambda>op v. v)\<rparr>]
                     else None))
        [(''loc__max_distance'', PInt 5), (''loc__near'', PList [PInt 1, PInt 2])]
     = Inr (PDict [(''loc'', PDict [(''$near'', PList [PInt 1, PInt 2]),
                                    (''$maxDistance'', PInt 5)])])"
    by code_simp
  from a b show ?thesis by (rule conjI)
qed

section \<open>Numeric path segments\<close>







lemma no_digit_prefix: "list_all Q (xs @ ys) \<Longrightarrow> list_all Q xs"
  by simp










section \<open>The delta of a hydrated document\<close>



end
